theory Spec2Isabelle
  imports Main "HOL-Library.Sublist"
begin

section \<open>Values\<close>

text \<open>
  A Python \<open>str\<close> is a sequence of code points; a character is written as its number.
  \<open>ustr\<close> turns an ASCII literal into such a sequence.
\<close>

type_synonym str = "nat list"

definition ustr :: "string \<Rightarrow> str" where
  "ustr s = map of_char s"

text \<open>
  The fields of a \<open>Book\<close> are not typed in the source. The model lets a field hold any
  of the scalar values that the JSON file can carry: \<open>None\<close>, a bool, an int or a str.
  Floats and nested lists or dicts as field values are not part of the model.
\<close>

datatype pyval = PNone | PBool bool | PInt int | PStr str

text \<open>
  The two status literals of the source, \<open>"\<dots>"\<close> in Cyrillic: the default status
  (U+0432 U+0020 U+043D U+0430 U+043B U+0438 U+0447 U+0438 U+0438, "in stock") and the
  other one (U+0432 U+044B U+0434 U+0430 U+043D U+0430, "lent out").
\<close>

definition st_available :: str where
  "st_available = [1074, 32, 1085, 1072, 1083, 1080, 1095, 1080, 1080]"

definition st_checked_out :: str where
  "st_checked_out = [1074, 1099, 1076, 1072, 1085, 1072]"

section \<open>Book\<close>

record book =
  id' :: pyval
  title :: pyval
  author :: pyval
  year :: pyval
  status :: pyval

text \<open>\<open>Book.__init__\<close>; the default of \<open>status\<close> is passed by the caller, see \<open>add_book\<close>.\<close>

definition Book :: "pyval \<Rightarrow> pyval \<Rightarrow> pyval \<Rightarrow> pyval \<Rightarrow> pyval \<Rightarrow> book" where
  "Book book_id title_arg author_arg year_arg status_arg =
     \<lparr>id' = book_id, title = title_arg, author = author_arg, year = year_arg,
      status = status_arg\<rparr>"

text \<open>\<open>Book.to_dict\<close>: the dict, as the list of its items in insertion order.\<close>

definition to_dict :: "book \<Rightarrow> (str \<times> pyval) list" where
  "to_dict b =
     [(ustr ''id'', id' b), (ustr ''title'', title b), (ustr ''author'', author b),
      (ustr ''year'', year b), (ustr ''status'', status b)]"

section \<open>The file system and the console\<close>

text \<open>
  A JSON document is modelled by the value \<open>json.load\<close> decodes it to, and \<open>json.dump\<close>
  followed by \<open>json.load\<close> is taken to give the value back: the encoding itself (UTF-8,
  \<open>ensure_ascii=False\<close>, the indentation) belongs to the library. The values of an object
  are scalars. A file whose text is not a JSON document, such as an empty or a cut-off
  one, is \<open>NotJson\<close>; a file that is not UTF-8 text is not modelled. Failures of the
  operating system (a disk that is full, a file that may not be written) are outside
  the model; the failure of the encoder on text that UTF-8 cannot carry is part of it,
  see \<open>save_books\<close>.
\<close>

datatype json = Scalar pyval | Arr "json list" | Obj "(str \<times> pyval) list"

datatype content = NotJson | Json json

datatype error = JSONDecodeError | TypeError | KeyError str | AttributeError | UnicodeEncodeError

text \<open>The two messages the store prints: "book with id \<dots> not found" and "incorrect status".\<close>

datatype message = NotFound int | InvalidStatus

text \<open>
  What an operation does to the outside, in order: a file written in full, a message
  printed, an exception that left the operation.
\<close>

datatype event = Written str | Printed message | Raised error

record world =
  files :: "str \<rightharpoonup> content"
  trace :: "event list"

definition print :: "message \<Rightarrow> world \<Rightarrow> world" where
  "print m w = w\<lparr>trace := trace w @ [Printed m]\<rparr>"

section \<open>Library\<close>

record library =
  filename :: str
  books :: "book list"

definition bind_err :: "error + 'a \<Rightarrow> ('a \<Rightarrow> error + 'b) \<Rightarrow> error + 'b" where
  "bind_err r f = (case r of Inl e \<Rightarrow> Inl e | Inr x \<Rightarrow> f x)"

text \<open>\<open>d[k]\<close> on a dict.\<close>

definition dict_get :: "(str \<times> pyval) list \<Rightarrow> str \<Rightarrow> error + pyval" where
  "dict_get d k = (case map_of d k of None \<Rightarrow> Inl (KeyError k) | Some v \<Rightarrow> Inr v)"

text \<open>
  One element of the comprehension in \<open>load_books\<close>: the five subscripts are evaluated
  from left to right; subscripting anything but a dict with a str raises \<open>TypeError\<close>.
\<close>

definition book_from :: "json \<Rightarrow> error + book" where
  "book_from e =
     (case e of
        Obj d \<Rightarrow>
          bind_err (dict_get d (ustr ''id'')) (\<lambda>i.
          bind_err (dict_get d (ustr ''title'')) (\<lambda>t.
          bind_err (dict_get d (ustr ''author'')) (\<lambda>a.
          bind_err (dict_get d (ustr ''year'')) (\<lambda>y.
          bind_err (dict_get d (ustr ''status'')) (\<lambda>s.
          Inr (Book i t a y s))))))
      | _ \<Rightarrow> Inl TypeError)"

fun load_list :: "json list \<Rightarrow> error + book list" where
  "load_list [] = Inr []"
| "load_list (e # es) =
     bind_err (book_from e) (\<lambda>b. bind_err (load_list es) (\<lambda>bs. Inr (b # bs)))"

text \<open>
  \<open>Library.load_books\<close>. The comprehension iterates over whatever the file decodes to:
  a list gives its elements; a dict gives its keys and a str its characters, which are
  strs and cannot be subscripted with \<open>'id'\<close>; any other value is not iterable.
\<close>

definition load_books :: "library \<Rightarrow> world \<Rightarrow> error + library" where
  "load_books lib w =
     (case files w (filename lib) of
        None \<Rightarrow> Inr lib
      | Some NotJson \<Rightarrow> Inl JSONDecodeError
      | Some (Json data) \<Rightarrow>
          (case data of
             Arr es \<Rightarrow> bind_err (load_list es) (\<lambda>bs. Inr (lib\<lparr>books := bs\<rparr>))
           | Obj d \<Rightarrow> (if d = [] then Inr (lib\<lparr>books := []\<rparr>) else Inl TypeError)
           | Scalar (PStr s) \<Rightarrow> (if s = [] then Inr (lib\<lparr>books := []\<rparr>) else Inl TypeError)
           | Scalar _ \<Rightarrow> Inl TypeError))"

text \<open>\<open>Library.__init__\<close>.\<close>

definition Library :: "str \<Rightarrow> world \<Rightarrow> error + library" where
  "Library fn w = load_books \<lparr>filename = fn, books = []\<rparr> w"

text \<open>
  The file is opened with \<open>encoding='utf-8'\<close> and the text is dumped with
  \<open>ensure_ascii=False\<close>, so every character of every str is encoded as it is. UTF-8
  has no encoding for a surrogate (U+D800 to U+DFFF), which a Python str can hold on
  its own; the numbers from 1114112 on are no characters at all.
\<close>

definition utf8_char :: "nat \<Rightarrow> bool" where
  "utf8_char c = (c < 55296 \<or> (57343 < c \<and> c < 1114112))"

fun encodable :: "pyval \<Rightarrow> bool" where
  "encodable (PStr s) = list_all utf8_char s"
| "encodable (PInt i) = True"
| "encodable (PBool b) = True"
| "encodable PNone = True"

definition book_encodable :: "book \<Rightarrow> bool" where
  "book_encodable b =
     (encodable (id' b) \<and> encodable (title b) \<and> encodable (author b) \<and>
      encodable (year b) \<and> encodable (status b))"

text \<open>
  \<open>Library.save_books\<close>. \<open>open(..., 'w')\<close> empties the file, then the whole list is
  written. When a field cannot be encoded the write raises \<open>UnicodeEncodeError\<close>: the
  file is left with the beginning of the text, which is not a JSON document, and the
  exception leaves \<open>save_books\<close> and the operation that called it. The operations
  below return the state in which they leave the object and the file; the trace tells
  whether they left by an exception.
\<close>

definition save_books :: "library \<Rightarrow> world \<Rightarrow> world" where
  "save_books lib w =
     (if list_all book_encodable (books lib)
      then w\<lparr>files := (files w)(filename lib \<mapsto>
                        Json (Arr (map (\<lambda>b. Obj (to_dict b)) (books lib)))),
             trace := trace w @ [Written (filename lib)]\<rparr>
      else w\<lparr>files := (files w)(filename lib \<mapsto> NotJson),
             trace := trace w @ [Raised UnicodeEncodeError]\<rparr>)"

text \<open>
  \<open>Library.add_book\<close>; \<open>Book\<close> is called without a status, so the default is used. The
  record is appended before the file is written.
\<close>

definition add_book :: "library \<Rightarrow> world \<Rightarrow> pyval \<Rightarrow> pyval \<Rightarrow> pyval \<Rightarrow> library \<times> world" where
  "add_book lib w title_arg author_arg year_arg =
     (let book_id = PInt (int (length (books lib)) + 1);
          new_book = Book book_id title_arg author_arg year_arg (PStr st_available);
          lib' = lib\<lparr>books := books lib @ [new_book]\<rparr>
      in (lib', save_books lib' w))"

text \<open>
  \<open>book.id == book_id\<close>, where \<open>book_id\<close> is an int (the menu passes \<open>int(input())\<close>):
  a bool compares as 0 or 1, a str or \<open>None\<close> is never equal to an int.
\<close>

fun py_eq_int :: "pyval \<Rightarrow> int \<Rightarrow> bool" where
  "py_eq_int (PInt a) i = (a = i)"
| "py_eq_int (PBool b) i = ((if b then 1 else 0) = i)"
| "py_eq_int (PStr s) i = False"
| "py_eq_int PNone i = False"

text \<open>The \<open>for\<close> loop of \<open>remove_book\<close>: the first book whose id is equal, if any.\<close>

fun find_book :: "int \<Rightarrow> book list \<Rightarrow> book option" where
  "find_book i [] = None"
| "find_book i (b # bs) = (if py_eq_int (id' b) i then Some b else find_book i bs)"

text \<open>
  \<open>Library.remove_book\<close>. \<open>self.books.remove(book)\<close> deletes the first element that is
  the object \<open>book\<close> (\<open>Book\<close> defines no \<open>__eq__\<close>); \<open>remove1\<close> deletes the first element
  with the same field values. They delete at the same position: a record before the one
  found has another id.
\<close>

definition remove_book :: "library \<Rightarrow> world \<Rightarrow> int \<Rightarrow> library \<times> world" where
  "remove_book lib w book_id =
     (case find_book book_id (books lib) of
        Some b \<Rightarrow> (let lib' = lib\<lparr>books := remove1 b (books lib)\<rparr> in (lib', save_books lib' w))
      | None \<Rightarrow> (lib, print (NotFound book_id) w))"

text \<open>
  The \<open>for\<close> loop of \<open>change_status\<close>: at the first book whose id is equal it either
  assigns the status or reports the incorrect status, and returns; it falls through
  to "not found".
\<close>

fun change_loop :: "int \<Rightarrow> str \<Rightarrow> book list \<Rightarrow> message + book list" where
  "change_loop i s [] = Inl (NotFound i)"
| "change_loop i s (b # bs) =
     (if py_eq_int (id' b) i
      then (if s \<in> set [st_available, st_checked_out]
            then Inr (b\<lparr>status := PStr s\<rparr> # bs)
            else Inl InvalidStatus)
      else (case change_loop i s bs of Inl m \<Rightarrow> Inl m | Inr bs' \<Rightarrow> Inr (b # bs')))"

definition change_status :: "library \<Rightarrow> world \<Rightarrow> int \<Rightarrow> str \<Rightarrow> library \<times> world" where
  "change_status lib w book_id new_status =
     (case change_loop book_id new_status (books lib) of
        Inr bs \<Rightarrow> (let lib' = lib\<lparr>books := bs\<rparr> in (lib', save_books lib' w))
      | Inl m \<Rightarrow> (lib, print m w))"

section \<open>Search\<close>

text \<open>\<open>q in s\<close> on two strs: \<open>q\<close> occurs in \<open>s\<close> as a contiguous run.\<close>

fun str_in :: "str \<Rightarrow> str \<Rightarrow> bool" where
  "str_in q [] = (q = [])"
| "str_in q (c # cs) = (prefix q (c # cs) \<or> str_in q cs)"

text \<open>\<open>str(v)\<close> on a scalar; an int is written in decimal, with its sign.\<close>

fun digits :: "nat \<Rightarrow> str" where
  "digits n = (if n < 10 then [48 + n] else digits (n div 10) @ [48 + n mod 10])"

declare digits.simps [simp del]

definition str_of_int :: "int \<Rightarrow> str" where
  "str_of_int i = (if i < 0 then 45 # digits (nat (- i)) else digits (nat i))"

fun py_str :: "pyval \<Rightarrow> str" where
  "py_str (PStr s) = s"
| "py_str (PInt i) = str_of_int i"
| "py_str (PBool b) = (if b then ustr ''True'' else ustr ''False'')"
| "py_str PNone = ustr ''None''"

text \<open>
  \<open>str.lower\<close> follows the Unicode case tables, which are not part of the program: the
  search takes it as the parameter \<open>lower\<close>. \<open>v.lower()\<close> exists on a str only.
\<close>

definition lower_of :: "(str \<Rightarrow> str) \<Rightarrow> pyval \<Rightarrow> error + str" where
  "lower_of lower v = (case v of PStr s \<Rightarrow> Inr (lower s) | _ \<Rightarrow> Inl AttributeError)"

text \<open>
  The condition of the comprehension in \<open>search_books\<close>; \<open>or\<close> evaluates its right
  operand only when the left one is false. The year is converted with \<open>str\<close> and is
  not lowered.
\<close>

definition matches :: "(str \<Rightarrow> str) \<Rightarrow> str \<Rightarrow> book \<Rightarrow> error + bool" where
  "matches lower query b =
     bind_err (lower_of lower (title b)) (\<lambda>t.
       if str_in (lower query) t then Inr True
       else bind_err (lower_of lower (author b)) (\<lambda>a.
         if str_in (lower query) a then Inr True
         else Inr (str_in (lower query) (py_str (year b)))))"

fun search_loop :: "(str \<Rightarrow> str) \<Rightarrow> str \<Rightarrow> book list \<Rightarrow> error + book list" where
  "search_loop lower query [] = Inr []"
| "search_loop lower query (b # bs) =
     bind_err (matches lower query b) (\<lambda>m.
     bind_err (search_loop lower query bs) (\<lambda>r. Inr (if m then b # r else r)))"

text \<open>\<open>Library.search_books\<close>: it reads the list and touches neither the file nor the console.\<close>

definition search_books :: "(str \<Rightarrow> str) \<Rightarrow> library \<Rightarrow> str \<Rightarrow> error + book list" where
  "search_books lower lib query = search_loop lower query (books lib)"

text \<open>What \<open>str.lower\<close> does on ASCII text: \<open>A\<close> to \<open>Z\<close> become \<open>a\<close> to \<open>z\<close>.\<close>

definition lower_ascii :: "str \<Rightarrow> str" where
  "lower_ascii s = map (\<lambda>c. if 65 \<le> c \<and> c \<le> 90 then c + 32 else c) s"

section \<open>Sequences of operations\<close>

datatype op = Add pyval pyval pyval | Remove int | SetStatus int str

fun apply_op :: "library \<times> world \<Rightarrow> op \<Rightarrow> library \<times> world" where
  "apply_op (lib, w) (Add t a y) = add_book lib w t a y"
| "apply_op (lib, w) (Remove i) = remove_book lib w i"
| "apply_op (lib, w) (SetStatus i s) = change_status lib w i s"

text \<open>
  The operations are applied to the object one after the other, as by a caller who
  goes on after an exception: the list in memory is changed before the file is written.
\<close>

definition run :: "op list \<Rightarrow> library \<times> world \<Rightarrow> library \<times> world" where
  "run ops st = foldl apply_op st ops"

definition ids :: "library \<times> world \<Rightarrow> pyval list" where
  "ids st = map id' (books (fst st))"

section \<open>Sample data\<close>

text \<open>Nothing on disk and nothing printed yet.\<close>

definition no_files :: world where
  "no_files = \<lparr>files = Map.empty, trace = []\<rparr>"

definition dune :: book where
  "dune = Book (PInt 1) (PStr (ustr ''Dune'')) (PStr (ustr ''Herbert''))
            (PStr (ustr ''1965'')) (PStr st_available)"

definition emma :: book where
  "emma = Book (PInt 3) (PStr (ustr ''Emma'')) (PStr (ustr ''Austen''))
            (PStr (ustr ''1815'')) (PStr st_available)"

definition ulysses :: book where
  "ulysses = Book (PInt 3) (PStr (ustr ''Ulysses'')) (PStr (ustr ''Joyce''))
               (PStr (ustr ''1922'')) (PStr st_available)"

text \<open>A catalog in which two records carry the id 3.\<close>

definition shelf :: library where
  "shelf = \<lparr>filename = ustr ''library.json'', books = [dune, emma, ulysses]\<rparr>"

text \<open>A book whose year was typed in Roman numerals.\<close>

definition chronicle :: book where
  "chronicle = Book (PInt 1) (PStr (ustr ''Chronicle'')) (PStr (ustr ''Anon''))
                 (PStr (ustr ''MCMLXV'')) (PStr st_available)"

text \<open>A book with a Cyrillic title and author (U+0414 U+044E U+043D U+0430, \<dots>).\<close>

definition dyuna :: book where
  "dyuna = Book (PInt 1) (PStr [1044, 1102, 1085, 1072])
             (PStr [1043, 1077, 1088, 1073, 1077, 1088, 1090]) (PInt 1965) (PStr st_available)"

definition cyrillic_shelf :: library where
  "cyrillic_shelf = \<lparr>filename = ustr ''library.json'', books = [dyuna, emma]\<rparr>"

text \<open>
  A title as \<open>input()\<close> returns it for the byte FF under the C locale: the lone
  surrogate U+DCFF.
\<close>

definition stray :: pyval where
  "stray = PStr [56575]"

text \<open>A file as \<open>save_books\<close> leaves it, with two records.\<close>

definition two_on_disk :: world where
  "two_on_disk =
     \<lparr>files = [ustr ''library.json'' \<mapsto>
        Json (Arr (map Obj
          [[(ustr ''id'', PInt 1), (ustr ''title'', PStr (ustr ''Dune'')),
            (ustr ''author'', PStr (ustr ''Herbert'')), (ustr ''year'', PInt 1965),
            (ustr ''status'', PStr st_available)],
           [(ustr ''id'', PInt 2), (ustr ''title'', PStr (ustr ''Emma'')),
            (ustr ''author'', PStr (ustr ''Austen'')), (ustr ''year'', PStr (ustr ''1815'')),
            (ustr ''status'', PStr st_checked_out)]]))],
      trace = []\<rparr>"

section \<open>Theorems\<close>

subsection \<open>Helper lemmas\<close>

lemma ustr_eq_iff [simp]: "ustr a = ustr b \<longleftrightarrow> a = b"
  unfolding ustr_def by (simp add: inj_on_def)

text \<open>\<open>str_in\<close> is the substring relation.\<close>

lemma str_in_iff: "str_in q s \<longleftrightarrow> (\<exists>p r. s = p @ q @ r)"
proof (induction s)
  case Nil
  then show ?case by auto
next
  case (Cons c cs)
  show ?case
  proof
    assume "str_in q (c # cs)"
    then consider "prefix q (c # cs)" | "str_in q cs" by auto
    then show "\<exists>p r. c # cs = p @ q @ r"
    proof cases
      case 1
      then obtain r where "c # cs = q @ r" by (auto simp: prefix_def)
      then have "c # cs = [] @ q @ r" by simp
      then show ?thesis by blast
    next
      case 2
      with Cons obtain p r where "cs = p @ q @ r" by auto
      then have "c # cs = (c # p) @ q @ r" by simp
      then show ?thesis by blast
    qed
  next
    assume "\<exists>p r. c # cs = p @ q @ r"
    then obtain p r where e: "c # cs = p @ q @ r" by auto
    show "str_in q (c # cs)"
    proof (cases p)
      case Nil
      with e have "prefix q (c # cs)" by (simp add: prefix_def)
      then show ?thesis by simp
    next
      case (Cons a p')
      with e have "cs = p' @ q @ r" by simp
      with Cons.IH show ?thesis by auto
    qed
  qed
qed

lemma find_book_list_ex:
  "find_book i bs \<noteq> None \<longleftrightarrow> list_ex (\<lambda>b. py_eq_int (id' b) i) bs"
  by (induction bs) auto

text \<open>
  The book that the loop of \<open>remove_book\<close> finds stands at the first position with an
  equal id, and \<open>remove1\<close> deletes it there.
\<close>

lemma find_book_remove1:
  "find_book i bs = Some b \<Longrightarrow>
     \<exists>k<length bs. bs ! k = b \<and> py_eq_int (id' (bs ! k)) i \<and>
        (\<forall>j<k. \<not> py_eq_int (id' (bs ! j)) i) \<and>
        remove1 b bs = take k bs @ drop (Suc k) bs"
proof (induction bs)
  case Nil
  then show ?case by simp
next
  case (Cons x xs)
  show ?case
  proof (cases "py_eq_int (id' x) i")
    case True
    with Cons.prems have "x = b" by simp
    with True have "0 < length (x # xs) \<and> (x # xs) ! 0 = b \<and>
        py_eq_int (id' ((x # xs) ! 0)) i \<and>
        (\<forall>j<0. \<not> py_eq_int (id' ((x # xs) ! j)) i) \<and>
        remove1 b (x # xs) = take 0 (x # xs) @ drop (Suc 0) (x # xs)"
      by simp
    then show ?thesis by blast
  next
    case False
    with Cons.prems have f: "find_book i xs = Some b" by simp
    from Cons.IH[OF f] obtain k where k: "k < length xs" "xs ! k = b"
      "py_eq_int (id' (xs ! k)) i" "\<forall>j<k. \<not> py_eq_int (id' (xs ! j)) i"
      "remove1 b xs = take k xs @ drop (Suc k) xs"
      by blast
    from k(2,3) False have ne: "x \<noteq> b" by auto
    have "\<forall>j<Suc k. \<not> py_eq_int (id' ((x # xs) ! j)) i"
      using False k(4) by (auto simp: less_Suc_eq_0_disj)
    with k ne have "Suc k < length (x # xs) \<and> (x # xs) ! Suc k = b \<and>
        py_eq_int (id' ((x # xs) ! Suc k)) i \<and>
        (\<forall>j<Suc k. \<not> py_eq_int (id' ((x # xs) ! j)) i) \<and>
        remove1 b (x # xs) = take (Suc k) (x # xs) @ drop (Suc (Suc k)) (x # xs)"
      by simp
    then show ?thesis by blast
  qed
qed

lemma change_loop_invalid:
  "s \<notin> set [st_available, st_checked_out] \<Longrightarrow>
   change_loop i s bs = Inl (if find_book i bs = None then NotFound i else InvalidStatus)"
  by (induction bs) auto

lemma change_loop_valid:
  "s \<in> set [st_available, st_checked_out] \<Longrightarrow> find_book i bs \<noteq> None \<Longrightarrow>
     \<exists>k<length bs. py_eq_int (id' (bs ! k)) i \<and>
        (\<forall>j<k. \<not> py_eq_int (id' (bs ! j)) i) \<and>
        change_loop i s bs = Inr (bs[k := (bs ! k)\<lparr>status := PStr s\<rparr>])"
proof (induction bs)
  case Nil
  then show ?case by simp
next
  case (Cons x xs)
  show ?case
  proof (cases "py_eq_int (id' x) i")
    case True
    with Cons.prems have "0 < length (x # xs) \<and> py_eq_int (id' ((x # xs) ! 0)) i \<and>
        (\<forall>j<0. \<not> py_eq_int (id' ((x # xs) ! j)) i) \<and>
        change_loop i s (x # xs) = Inr ((x # xs)[0 := ((x # xs) ! 0)\<lparr>status := PStr s\<rparr>])"
      by simp
    then show ?thesis by blast
  next
    case False
    with Cons.prems have f: "find_book i xs \<noteq> None" by simp
    from Cons.IH[OF Cons.prems(1) f] obtain k where k: "k < length xs"
      "py_eq_int (id' (xs ! k)) i" "\<forall>j<k. \<not> py_eq_int (id' (xs ! j)) i"
      "change_loop i s xs = Inr (xs[k := (xs ! k)\<lparr>status := PStr s\<rparr>])"
      by blast
    have "\<forall>j<Suc k. \<not> py_eq_int (id' ((x # xs) ! j)) i"
      using False k(3) by (auto simp: less_Suc_eq_0_disj)
    with k False have "Suc k < length (x # xs) \<and> py_eq_int (id' ((x # xs) ! Suc k)) i \<and>
        (\<forall>j<Suc k. \<not> py_eq_int (id' ((x # xs) ! j)) i) \<and>
        change_loop i s (x # xs) =
          Inr ((x # xs)[Suc k := ((x # xs) ! Suc k)\<lparr>status := PStr s\<rparr>])"
      by simp
    then show ?thesis by blast
  qed
qed

text \<open>Reading back what \<open>to_dict\<close> wrote.\<close>

lemma book_from_to_dict: "book_from (Obj (to_dict b)) = Inr b"
  by (simp add: book_from_def to_dict_def dict_get_def bind_err_def Book_def)

lemma load_list_to_dict: "load_list (map (\<lambda>b. Obj (to_dict b)) bs) = Inr bs"
  by (induction bs) (simp_all add: book_from_to_dict bind_err_def)

lemma dict_get_Some: "map_of d k = Some v \<Longrightarrow> dict_get d k = Inr v"
  by (simp add: dict_get_def)

lemma load_list_objs:
  "list_all (\<lambda>d. list_all (\<lambda>k. map_of d k \<noteq> None)
       [ustr ''id'', ustr ''title'', ustr ''author'', ustr ''year'', ustr ''status'']) ds \<Longrightarrow>
   \<exists>bs. load_list (map Obj ds) = Inr bs \<and>
        list_all2 (\<lambda>d b. map_of d (ustr ''id'') = Some (id' b) \<and>
                         map_of d (ustr ''title'') = Some (title b) \<and>
                         map_of d (ustr ''author'') = Some (author b) \<and>
                         map_of d (ustr ''year'') = Some (year b) \<and>
                         map_of d (ustr ''status'') = Some (status b)) ds bs"
proof (induction ds)
  case Nil
  then show ?case by simp
next
  case (Cons d ds)
  let ?R = "\<lambda>d b. map_of d (ustr ''id'') = Some (id' b) \<and>
                  map_of d (ustr ''title'') = Some (title b) \<and>
                  map_of d (ustr ''author'') = Some (author b) \<and>
                  map_of d (ustr ''year'') = Some (year b) \<and>
                  map_of d (ustr ''status'') = Some (status b)"
  from Cons.prems obtain i t a y s where f:
    "map_of d (ustr ''id'') = Some i" "map_of d (ustr ''title'') = Some t"
    "map_of d (ustr ''author'') = Some a" "map_of d (ustr ''year'') = Some y"
    "map_of d (ustr ''status'') = Some s"
    by auto
  then have b: "book_from (Obj d) = Inr (Book i t a y s)"
    by (simp add: book_from_def dict_get_Some bind_err_def)
  from Cons obtain bs where bs: "load_list (map Obj ds) = Inr bs" "list_all2 ?R ds bs"
    by auto
  from b bs(1) have "load_list (map Obj (d # ds)) = Inr (Book i t a y s # bs)"
    by (simp add: bind_err_def)
  moreover from f bs(2) have "list_all2 ?R (d # ds) (Book i t a y s # bs)"
    by (simp add: Book_def)
  ultimately show ?case by blast
qed

subsection \<open>Ids\<close>

text \<open>
  C1: after every sequence of Add, Remove and SetStatus from an empty catalog the ids of
  the records are pairwise distinct. \<open>add_book\<close> takes the new id from the length of the
  list, although its comment calls the id unique: three additions, the removal of id 2
  and one more addition leave the ids 1, 3, 3.
\<close>

theorem ids_collide_after_remove:
  "ids (run [Add (PStr (ustr ''A'')) (PStr (ustr ''a'')) (PStr (ustr ''2001'')),
             Add (PStr (ustr ''B'')) (PStr (ustr ''b'')) (PStr (ustr ''2002'')),
             Add (PStr (ustr ''C'')) (PStr (ustr ''c'')) (PStr (ustr ''2003'')),
             Remove 2,
             Add (PStr (ustr ''D'')) (PStr (ustr ''d'')) (PStr (ustr ''2004''))]
          (\<lparr>filename = ustr ''library.json'', books = []\<rparr>, no_files))
     = [PInt 1, PInt 3, PInt 3] \<and>
   \<not> distinct (ids (run
            [Add (PStr (ustr ''A'')) (PStr (ustr ''a'')) (PStr (ustr ''2001'')),
             Add (PStr (ustr ''B'')) (PStr (ustr ''b'')) (PStr (ustr ''2002'')),
             Add (PStr (ustr ''C'')) (PStr (ustr ''c'')) (PStr (ustr ''2003'')),
             Remove 2,
             Add (PStr (ustr ''D'')) (PStr (ustr ''d'')) (PStr (ustr ''2004''))]
          (\<lparr>filename = ustr ''library.json'', books = []\<rparr>, no_files)))"
  by (simp add: ids_def run_def add_book_def remove_book_def Book_def Let_def)

text \<open>
  C4: from an empty catalog three additions give the ids 1, 2, 3; after the removal of
  id 2 one more addition gives the new record the id 3, the count of the records plus
  one. The catalog then holds the first, the third and the new record.
\<close>

theorem id_assignment_by_count:
  "ids (run [Add t1 a1 y1, Add t2 a2 y2, Add t3 a3 y3] (\<lparr>filename = fn, books = []\<rparr>, w))
     = [PInt 1, PInt 2, PInt 3] \<and>
   books (fst (run [Add t1 a1 y1, Add t2 a2 y2, Add t3 a3 y3, Remove 2, Add t4 a4 y4]
                 (\<lparr>filename = fn, books = []\<rparr>, w)))
     = [Book (PInt 1) t1 a1 y1 (PStr st_available),
        Book (PInt 3) t3 a3 y3 (PStr st_available),
        Book (PInt 3) t4 a4 y4 (PStr st_available)]"
  by (simp add: ids_def run_def add_book_def remove_book_def Book_def Let_def)

subsection \<open>Search\<close>

text \<open>
  C2: Search returns the records of which the query is a case-insensitive substring of
  the title, the author or the string form of the year. \<open>search_books\<close> lowers the query,
  the title and the author, but not the year: the query \<open>CHRON\<close> finds the chronicle by
  its title, the query \<open>MCMLXV\<close>, the very text of its year, finds nothing, although the
  lowered query is a substring of the lowered year.
\<close>

theorem search_year_case_sensitive:
  "search_books lower_ascii \<lparr>filename = ustr ''library.json'', books = [chronicle]\<rparr>
     (ustr ''CHRON'') = Inr [chronicle] \<and>
   search_books lower_ascii \<lparr>filename = ustr ''library.json'', books = [chronicle]\<rparr>
     (ustr ''MCMLXV'') = Inr [] \<and>
   str_in (lower_ascii (ustr ''MCMLXV'')) (lower_ascii (py_str (year chronicle)))"
  by (simp add: search_books_def matches_def lower_of_def bind_err_def chronicle_def Book_def
      lower_ascii_def ustr_def)

subsection \<open>Status changes\<close>

text \<open>
  C3 as stated: for every id and every status outside the two literals, SetStatus
  reports the incorrect status. It does not when no record has the id: the loop of
  \<open>change_status\<close> looks for the id first and falls through to "not found".
\<close>

theorem change_status_absent_id_counterexample:
  "ustr ''lost'' \<notin> set [st_available, st_checked_out] \<and>
   trace (snd (change_status shelf no_files 7 (ustr ''lost''))) = [Printed (NotFound 7)]"
  by (simp add: change_status_def print_def shelf_def dune_def emma_def ulysses_def Book_def
      no_files_def st_available_def st_checked_out_def ustr_def)

text \<open>
  C3, amended: for every catalog, every id and every status outside the two literals,
  SetStatus leaves the catalog and the file as they are and writes nothing; it reports
  the incorrect status when a record has the id, and "not found" otherwise.
\<close>

theorem change_status_invalid_no_change:
  assumes "s \<notin> set [st_available, st_checked_out]"
  shows "fst (change_status lib w i s) = lib \<and>
         files (snd (change_status lib w i s)) = files w \<and>
         trace (snd (change_status lib w i s)) =
           trace w @ [Printed (if list_ex (\<lambda>b. py_eq_int (id' b) i) (books lib)
                               then InvalidStatus else NotFound i)]"
proof -
  have "change_loop i s (books lib) =
          Inl (if list_ex (\<lambda>b. py_eq_int (id' b) i) (books lib)
               then InvalidStatus else NotFound i)"
    using change_loop_invalid[OF assms, of i "books lib"] find_book_list_ex[of i "books lib"]
    by (simp split: if_splits)
  then show ?thesis by (simp add: change_status_def print_def)
qed

theorem change_status_invalid_no_change_witness:
  "ustr ''lost'' \<notin> set [st_available, st_checked_out] \<and>
   fst (change_status shelf no_files 1 (ustr ''lost'')) = shelf \<and>
   files (snd (change_status shelf no_files 1 (ustr ''lost''))) = files no_files \<and>
   trace (snd (change_status shelf no_files 1 (ustr ''lost''))) = [Printed InvalidStatus]"
proof -
  have h: "ustr ''lost'' \<notin> set [st_available, st_checked_out]"
    by (simp add: st_available_def st_checked_out_def ustr_def)
  have e: "list_ex (\<lambda>b. py_eq_int (id' b) 1) (books shelf)"
    by (simp add: shelf_def dune_def Book_def)
  show ?thesis
    using h e change_status_invalid_no_change[OF h, of shelf no_files 1]
    by (simp add: no_files_def)
qed

text \<open>
  C8: when a record has the id and the new status is one of the two literals, SetStatus
  changes the status of the first record with that id and nothing else: the list keeps
  its length, every other position keeps its record, and the record keeps its id,
  title, author and year.
\<close>

theorem change_status_frame:
  assumes "list_ex (\<lambda>b. py_eq_int (id' b) i) (books lib)"
    and "s \<in> set [st_available, st_checked_out]"
  shows "\<exists>k<length (books lib).
           py_eq_int (id' (books lib ! k)) i \<and>
           (\<forall>j<k. \<not> py_eq_int (id' (books lib ! j)) i) \<and>
           books (fst (change_status lib w i s)) =
             (books lib)[k := (books lib ! k)\<lparr>status := PStr s\<rparr>] \<and>
           length (books (fst (change_status lib w i s))) = length (books lib) \<and>
           (\<forall>j<length (books lib). j \<noteq> k \<longrightarrow>
               books (fst (change_status lib w i s)) ! j = books lib ! j) \<and>
           id' (books (fst (change_status lib w i s)) ! k) = id' (books lib ! k) \<and>
           title (books (fst (change_status lib w i s)) ! k) = title (books lib ! k) \<and>
           author (books (fst (change_status lib w i s)) ! k) = author (books lib ! k) \<and>
           year (books (fst (change_status lib w i s)) ! k) = year (books lib ! k) \<and>
           status (books (fst (change_status lib w i s)) ! k) = PStr s \<and>
           filename (fst (change_status lib w i s)) = filename lib"
proof -
  from assms(1) have "find_book i (books lib) \<noteq> None"
    using find_book_list_ex[of i "books lib"] by simp
  from change_loop_valid[OF assms(2) this] obtain k where k: "k < length (books lib)"
    "py_eq_int (id' (books lib ! k)) i" "\<forall>j<k. \<not> py_eq_int (id' (books lib ! j)) i"
    "change_loop i s (books lib) = Inr ((books lib)[k := (books lib ! k)\<lparr>status := PStr s\<rparr>])"
    by blast
  from k(4) have "books (fst (change_status lib w i s)) =
      (books lib)[k := (books lib ! k)\<lparr>status := PStr s\<rparr>]"
    and "filename (fst (change_status lib w i s)) = filename lib"
    by (simp_all add: change_status_def Let_def)
  with k(1,2,3) show ?thesis by (intro exI[of _ k]) simp
qed

theorem change_status_frame_witness:
  "list_ex (\<lambda>b. py_eq_int (id' b) 3) (books shelf) \<and>
   st_checked_out \<in> set [st_available, st_checked_out] \<and>
   books (fst (change_status shelf no_files 3 st_checked_out)) =
     [dune, emma\<lparr>status := PStr st_checked_out\<rparr>, ulysses]"
proof -
  have h1: "list_ex (\<lambda>b. py_eq_int (id' b) 3) (books shelf)"
    by (simp add: shelf_def dune_def emma_def Book_def)
  have h2: "st_checked_out \<in> set [st_available, st_checked_out]" by simp
  from change_status_frame[OF h1 h2, of no_files] obtain k where
    k: "k < length (books shelf)" "py_eq_int (id' (books shelf ! k)) 3"
      "\<forall>j<k. \<not> py_eq_int (id' (books shelf ! j)) 3"
      "books (fst (change_status shelf no_files 3 st_checked_out)) =
         (books shelf)[k := (books shelf ! k)\<lparr>status := PStr st_checked_out\<rparr>]"
    by blast
  from k(1) have "k = 0 \<or> k = 1 \<or> k = 2" by (auto simp: shelf_def)
  then have "k = 1"
  proof (elim disjE)
    assume "k = 0"
    with k(2) show ?thesis by (simp add: shelf_def dune_def Book_def)
  next
    assume "k = 1"
    then show ?thesis .
  next
    assume "k = 2"
    with k(3) have "\<not> py_eq_int (id' (books shelf ! 1)) 3" by simp
    then show ?thesis by (simp add: shelf_def emma_def Book_def)
  qed
  with k(4) have "books (fst (change_status shelf no_files 3 st_checked_out)) =
      [dune, emma\<lparr>status := PStr st_checked_out\<rparr>, ulysses]"
    by (simp add: shelf_def)
  with h1 h2 show ?thesis by blast
qed

subsection \<open>Add\<close>

text \<open>
  C6 as stated: for every catalog Add appends the record and persists afterwards. It
  does not persist a title that UTF-8 cannot encode: the record is appended, the write
  raises, and the file is left unreadable.
\<close>

theorem add_book_unencodable_counterexample:
  "books (fst (add_book \<lparr>filename = ustr ''library.json'', books = []\<rparr> no_files
                 stray (PStr (ustr ''Anon'')) (PStr (ustr ''2001'')))) =
     [Book (PInt 1) stray (PStr (ustr ''Anon'')) (PStr (ustr ''2001'')) (PStr st_available)] \<and>
   trace (snd (add_book \<lparr>filename = ustr ''library.json'', books = []\<rparr> no_files
                 stray (PStr (ustr ''Anon'')) (PStr (ustr ''2001'')))) =
     [Raised UnicodeEncodeError] \<and>
   files (snd (add_book \<lparr>filename = ustr ''library.json'', books = []\<rparr> no_files
                 stray (PStr (ustr ''Anon'')) (PStr (ustr ''2001'')))) (ustr ''library.json'') =
     Some NotJson \<and>
   Library (ustr ''library.json'')
     (snd (add_book \<lparr>filename = ustr ''library.json'', books = []\<rparr> no_files
             stray (PStr (ustr ''Anon'')) (PStr (ustr ''2001'')))) = Inl JSONDecodeError"
  by (simp add: add_book_def Let_def Book_def save_books_def book_encodable_def utf8_char_def
      stray_def no_files_def Library_def load_books_def)

text \<open>
  C6, amended: Add appends one record at the end of the list; its id is the length of
  the list before the call plus one, its title, author and year are the arguments and
  its status is the default. Nothing is compared with the records already there. When
  every str of the catalog and of the new record can be encoded in UTF-8, the file is
  written afterwards: a library constructed from it holds the new list.
\<close>

theorem add_book_appends:
  "books (fst (add_book lib w t a y)) =
     books lib @ [\<lparr>id' = PInt (int (length (books lib)) + 1), title = t, author = a,
                   year = y, status = PStr st_available\<rparr>] \<and>
   filename (fst (add_book lib w t a y)) = filename lib \<and>
   (list_all book_encodable (books lib) \<and> encodable t \<and> encodable a \<and> encodable y \<longrightarrow>
      trace (snd (add_book lib w t a y)) = trace w @ [Written (filename lib)] \<and>
      Library (filename lib) (snd (add_book lib w t a y)) = Inr (fst (add_book lib w t a y)))"
proof -
  let ?new = "\<lparr>id' = PInt (int (length (books lib)) + 1), title = t, author = a,
               year = y, status = PStr st_available\<rparr>"
  have m: "fst (add_book lib w t a y) = lib\<lparr>books := books lib @ [?new]\<rparr>"
    and s: "snd (add_book lib w t a y) = save_books (lib\<lparr>books := books lib @ [?new]\<rparr>) w"
    by (simp_all add: add_book_def Let_def Book_def)
  have "trace (snd (add_book lib w t a y)) = trace w @ [Written (filename lib)] \<and>
        Library (filename lib) (snd (add_book lib w t a y)) = Inr (fst (add_book lib w t a y))"
    if e: "list_all book_encodable (books lib) \<and> encodable t \<and> encodable a \<and> encodable y"
  proof -
    from e have "list_all book_encodable (books lib @ [?new])"
      by (simp add: book_encodable_def st_available_def utf8_char_def)
    then show ?thesis
      unfolding m s
      by (simp add: save_books_def Library_def load_books_def bind_err_def
          load_list_to_dict [of "books lib @ [?new]", simplified])
  qed
  with m show ?thesis by simp
qed

theorem add_book_appends_witness:
  "list_all book_encodable (books cyrillic_shelf) \<and>
   encodable (PStr (ustr ''Ulysses'')) \<and> encodable (PStr (ustr ''Joyce'')) \<and>
   encodable (PInt 1922) \<and>
   books (fst (add_book cyrillic_shelf no_files
                 (PStr (ustr ''Ulysses'')) (PStr (ustr ''Joyce'')) (PInt 1922))) =
     [dyuna, emma,
      Book (PInt 3) (PStr (ustr ''Ulysses'')) (PStr (ustr ''Joyce'')) (PInt 1922)
        (PStr st_available)] \<and>
   trace (snd (add_book cyrillic_shelf no_files
                 (PStr (ustr ''Ulysses'')) (PStr (ustr ''Joyce'')) (PInt 1922))) =
     [Written (ustr ''library.json'')] \<and>
   Library (ustr ''library.json'')
     (snd (add_book cyrillic_shelf no_files
             (PStr (ustr ''Ulysses'')) (PStr (ustr ''Joyce'')) (PInt 1922))) =
     Inr \<lparr>filename = ustr ''library.json'',
          books = [dyuna, emma,
                   Book (PInt 3) (PStr (ustr ''Ulysses'')) (PStr (ustr ''Joyce'')) (PInt 1922)
                     (PStr st_available)]\<rparr>"
proof -
  have h: "list_all book_encodable (books cyrillic_shelf) \<and>
     encodable (PStr (ustr ''Ulysses'')) \<and> encodable (PStr (ustr ''Joyce'')) \<and>
     encodable (PInt 1922)"
    by (simp add: cyrillic_shelf_def dyuna_def emma_def Book_def book_encodable_def
        st_available_def utf8_char_def ustr_def)
  show ?thesis
    using h add_book_appends[of cyrillic_shelf no_files "PStr (ustr ''Ulysses'')"
        "PStr (ustr ''Joyce'')" "PInt 1922"]
    by (simp add: cyrillic_shelf_def no_files_def Book_def)
qed

subsection \<open>Remove\<close>

text \<open>
  C7: when no record has the id, Remove leaves the list and the file as they are,
  reports "not found", writes nothing, and returns normally.
\<close>

theorem remove_book_absent:
  assumes "\<not> list_ex (\<lambda>b. py_eq_int (id' b) i) (books lib)"
  shows "fst (remove_book lib w i) = lib \<and>
         files (snd (remove_book lib w i)) = files w \<and>
         trace (snd (remove_book lib w i)) = trace w @ [Printed (NotFound i)]"
proof -
  from assms have "find_book i (books lib) = None"
    using find_book_list_ex[of i "books lib"] by simp
  then show ?thesis by (simp add: remove_book_def print_def)
qed

theorem remove_book_absent_witness:
  "\<not> list_ex (\<lambda>b. py_eq_int (id' b) 999) (books shelf) \<and>
   fst (remove_book shelf no_files 999) = shelf \<and>
   files (snd (remove_book shelf no_files 999)) = files no_files \<and>
   trace (snd (remove_book shelf no_files 999)) = [Printed (NotFound 999)] \<and>
   fst (remove_book \<lparr>filename = ustr ''library.json'', books = []\<rparr> no_files 999) =
     \<lparr>filename = ustr ''library.json'', books = []\<rparr> \<and>
   trace (snd (remove_book \<lparr>filename = ustr ''library.json'', books = []\<rparr> no_files 999)) =
     [Printed (NotFound 999)]"
proof -
  have h: "\<not> list_ex (\<lambda>b. py_eq_int (id' b) 999) (books shelf)"
    by (simp add: shelf_def dune_def emma_def ulysses_def Book_def)
  have h0: "\<not> list_ex (\<lambda>b. py_eq_int (id' b) 999)
                (books \<lparr>filename = ustr ''library.json'', books = []\<rparr>)"
    by simp
  show ?thesis
    using h remove_book_absent[OF h, of no_files] remove_book_absent[OF h0, of no_files]
    by (simp add: no_files_def)
qed

text \<open>
  C10: when a record has the id, Remove deletes the first record with that id and
  nothing else: the records before and after it stay as they are and in their order,
  also when a later record carries the same id.
\<close>

theorem remove_book_frame:
  assumes "list_ex (\<lambda>b. py_eq_int (id' b) i) (books lib)"
  shows "\<exists>k<length (books lib).
           py_eq_int (id' (books lib ! k)) i \<and>
           (\<forall>j<k. \<not> py_eq_int (id' (books lib ! j)) i) \<and>
           books (fst (remove_book lib w i)) = take k (books lib) @ drop (Suc k) (books lib) \<and>
           filename (fst (remove_book lib w i)) = filename lib"
proof -
  from assms obtain b where b: "find_book i (books lib) = Some b"
    using find_book_list_ex[of i "books lib"] by auto
  from find_book_remove1[OF b] obtain k where k: "k < length (books lib)"
    "py_eq_int (id' (books lib ! k)) i" "\<forall>j<k. \<not> py_eq_int (id' (books lib ! j)) i"
    "remove1 b (books lib) = take k (books lib) @ drop (Suc k) (books lib)"
    by blast
  from b k(4) have "books (fst (remove_book lib w i)) =
      take k (books lib) @ drop (Suc k) (books lib)"
    and "filename (fst (remove_book lib w i)) = filename lib"
    by (simp_all add: remove_book_def Let_def)
  with k(1,2,3) show ?thesis by blast
qed

theorem remove_book_frame_witness:
  "list_ex (\<lambda>b. py_eq_int (id' b) 3) (books shelf) \<and>
   books (fst (remove_book shelf no_files 3)) = [dune, ulysses]"
proof -
  have h: "list_ex (\<lambda>b. py_eq_int (id' b) 3) (books shelf)"
    by (simp add: shelf_def dune_def emma_def Book_def)
  from remove_book_frame[OF h, of no_files] obtain k where
    k: "k < length (books shelf)" "py_eq_int (id' (books shelf ! k)) 3"
      "\<forall>j<k. \<not> py_eq_int (id' (books shelf ! j)) 3"
      "books (fst (remove_book shelf no_files 3)) =
         take k (books shelf) @ drop (Suc k) (books shelf)"
    by blast
  from k(1) have "k = 0 \<or> k = 1 \<or> k = 2" by (auto simp: shelf_def)
  then have "k = 1"
  proof (elim disjE)
    assume "k = 0"
    with k(2) show ?thesis by (simp add: shelf_def dune_def Book_def)
  next
    assume "k = 1"
    then show ?thesis .
  next
    assume "k = 2"
    with k(3) have "\<not> py_eq_int (id' (books shelf ! 1)) 3" by simp
    then show ?thesis by (simp add: shelf_def emma_def Book_def)
  qed
  with k(4) have "books (fst (remove_book shelf no_files 3)) = [dune, ulysses]"
    by (simp add: shelf_def)
  with h show ?thesis by blast
qed

subsection \<open>Persist and load\<close>

text \<open>
  C5: saving a list of records whose fields are valid, that is, whose strs can be
  encoded in UTF-8, and loading the file again gives the same records, with the same
  id, title, author, year and status, in the same order; the text need not be ASCII.
  What is proved is that \<open>load_books\<close> reads each of the five fields that \<open>to_dict\<close>
  wrote, in the order of the list; that the JSON text decodes to the value dumped is
  the library's part.
\<close>

theorem save_load_roundtrip:
  assumes "list_all book_encodable (books lib)"
  shows "trace (save_books lib w) = trace w @ [Written (filename lib)] \<and>
         load_books (lib\<lparr>books := bs0\<rparr>) (save_books lib w) = Inr lib"
  using assms
  by (simp add: load_books_def save_books_def load_list_to_dict bind_err_def)

theorem save_load_roundtrip_witness:
  "list_all book_encodable (books cyrillic_shelf) \<and>
   trace (save_books cyrillic_shelf no_files) = [Written (ustr ''library.json'')] \<and>
   load_books (cyrillic_shelf\<lparr>books := []\<rparr>) (save_books cyrillic_shelf no_files) =
     Inr cyrillic_shelf \<and>
   books cyrillic_shelf = [dyuna, emma] \<and>
   title dyuna = PStr [1044, 1102, 1085, 1072]"
proof -
  have h: "list_all book_encodable (books cyrillic_shelf)"
    by (simp add: cyrillic_shelf_def dyuna_def emma_def Book_def book_encodable_def
        st_available_def utf8_char_def ustr_def)
  show ?thesis
    using h save_load_roundtrip[OF h, of no_files "[]"]
    by (simp add: cyrillic_shelf_def no_files_def dyuna_def Book_def)
qed

text \<open>
  C9: a library constructed when the file does not exist has no records; constructed
  from a file that holds an array of objects with the five keys, it has one record for
  each object, in the order of the file, with the five fields of the object.
\<close>

theorem load_on_construction:
  "(files w fn = None \<longrightarrow> Library fn w = Inr \<lparr>filename = fn, books = []\<rparr>) \<and>
   (files w fn = Some (Json (Arr (map Obj ds))) \<and>
    list_all (\<lambda>d. list_all (\<lambda>k. map_of d k \<noteq> None)
       [ustr ''id'', ustr ''title'', ustr ''author'', ustr ''year'', ustr ''status'']) ds \<longrightarrow>
    (\<exists>bs. Library fn w = Inr \<lparr>filename = fn, books = bs\<rparr> \<and>
       list_all2 (\<lambda>d b. map_of d (ustr ''id'') = Some (id' b) \<and>
                        map_of d (ustr ''title'') = Some (title b) \<and>
                        map_of d (ustr ''author'') = Some (author b) \<and>
                        map_of d (ustr ''year'') = Some (year b) \<and>
                        map_of d (ustr ''status'') = Some (status b)) ds bs))"
proof (intro conjI impI)
  assume "files w fn = None"
  then show "Library fn w = Inr \<lparr>filename = fn, books = []\<rparr>"
    by (simp add: Library_def load_books_def)
next
  let ?R = "\<lambda>d b. map_of d (ustr ''id'') = Some (id' b) \<and>
                  map_of d (ustr ''title'') = Some (title b) \<and>
                  map_of d (ustr ''author'') = Some (author b) \<and>
                  map_of d (ustr ''year'') = Some (year b) \<and>
                  map_of d (ustr ''status'') = Some (status b)"
  assume a: "files w fn = Some (Json (Arr (map Obj ds))) \<and>
    list_all (\<lambda>d. list_all (\<lambda>k. map_of d k \<noteq> None)
       [ustr ''id'', ustr ''title'', ustr ''author'', ustr ''year'', ustr ''status'']) ds"
  from load_list_objs[OF conjunct2[OF a]] obtain bs where
    bs: "load_list (map Obj ds) = Inr bs" "list_all2 ?R ds bs"
    by blast
  from a bs(1) have "Library fn w = Inr \<lparr>filename = fn, books = bs\<rparr>"
    by (simp add: Library_def load_books_def bind_err_def)
  with bs(2) show "\<exists>bs. Library fn w = Inr \<lparr>filename = fn, books = bs\<rparr> \<and> list_all2 ?R ds bs"
    by blast
qed

theorem load_on_construction_witness:
  "files no_files (ustr ''library.json'') = None \<and>
   Library (ustr ''library.json'') no_files = Inr \<lparr>filename = ustr ''library.json'', books = []\<rparr> \<and>
   Library (ustr ''library.json'') two_on_disk =
     Inr \<lparr>filename = ustr ''library.json'',
          books = [Book (PInt 1) (PStr (ustr ''Dune'')) (PStr (ustr ''Herbert'')) (PInt 1965)
                     (PStr st_available),
                   Book (PInt 2) (PStr (ustr ''Emma'')) (PStr (ustr ''Austen''))
                     (PStr (ustr ''1815'')) (PStr st_checked_out)]\<rparr>"
proof -
  let ?fn = "ustr ''library.json''"
  let ?d1 = "[(ustr ''id'', PInt 1), (ustr ''title'', PStr (ustr ''Dune'')),
            (ustr ''author'', PStr (ustr ''Herbert'')), (ustr ''year'', PInt 1965),
            (ustr ''status'', PStr st_available)]"
  let ?d2 = "[(ustr ''id'', PInt 2), (ustr ''title'', PStr (ustr ''Emma'')),
            (ustr ''author'', PStr (ustr ''Austen'')), (ustr ''year'', PStr (ustr ''1815'')),
            (ustr ''status'', PStr st_checked_out)]"
  have n: "files no_files ?fn = None" by (simp add: no_files_def)
  with load_on_construction[of no_files ?fn]
  have e: "Library ?fn no_files = Inr \<lparr>filename = ?fn, books = []\<rparr>" by blast
  have f: "files two_on_disk ?fn = Some (Json (Arr (map Obj [?d1, ?d2])))"
    by (simp add: two_on_disk_def)
  have g: "list_all (\<lambda>d. list_all (\<lambda>k. map_of d k \<noteq> None)
       [ustr ''id'', ustr ''title'', ustr ''author'', ustr ''year'', ustr ''status''])
       [?d1, ?d2]"
    by simp
  from load_on_construction[of two_on_disk ?fn "[?d1, ?d2]"] f g
  obtain bs where bs: "Library ?fn two_on_disk = Inr \<lparr>filename = ?fn, books = bs\<rparr>"
    "list_all2 (\<lambda>d b. map_of d (ustr ''id'') = Some (id' b) \<and>
                        map_of d (ustr ''title'') = Some (title b) \<and>
                        map_of d (ustr ''author'') = Some (author b) \<and>
                        map_of d (ustr ''year'') = Some (year b) \<and>
                        map_of d (ustr ''status'') = Some (status b)) [?d1, ?d2] bs"
    by blast
  from bs(2) have "bs = [Book (PInt 1) (PStr (ustr ''Dune'')) (PStr (ustr ''Herbert''))
                     (PInt 1965) (PStr st_available),
                   Book (PInt 2) (PStr (ustr ''Emma'')) (PStr (ustr ''Austen''))
                     (PStr (ustr ''1815'')) (PStr st_checked_out)]"
    by (auto simp: list_all2_Cons1 Book_def)
  with bs(1) n e show ?thesis by simp
qed

end
